theory Spec2Isabelle
  imports Main "HOL-Library.Sublist"
begin

section \<open>Events, element handles and composed handlers\<close>

text \<open>
  An element handle is the position of the element in the rendered tree: the path of child
  indices from the document root. \<open>a.contains(b)\<close> holds when \<open>b\<close> is \<open>a\<close> itself or lies
  below it, that is when \<open>a\<close>'s path is a prefix of \<open>b\<close>'s.
\<close>

type_synonym node = "nat list"

definition contains :: "node \<Rightarrow> node \<Rightarrow> bool" where
  "contains a b = prefix a b"

text \<open>
  One record for the events the handlers of \<open>Menu.tsx\<close> read: the fields they inspect
  (\<open>type\<close>, \<open>key\<close>, \<open>button\<close>, the modifier keys, \<open>target\<close>) and the two flags they set through
  \<open>preventDefault()\<close> and \<open>stopPropagation()\<close>. \<open>button\<close> is \<open>None\<close> on an event that has no such
  field (a touch event, where the source's \<open>event.button\<close> reads \<open>undefined\<close>).
\<close>

record event =
  etype :: string
  key :: string
  button :: "int option"
  ctrlKey :: bool
  shiftKey :: bool
  altKey :: bool
  metaKey :: bool
  target :: node
  defaultPrevented :: bool
  propagationStopped :: bool

definition preventDefault :: "event \<Rightarrow> event" where
  "preventDefault ev = ev\<lparr>defaultPrevented := True\<rparr>"

definition stopPropagation :: "event \<Rightarrow> event" where
  "stopPropagation ev = ev\<lparr>propagationStopped := True\<rparr>"

text \<open>A freshly created event of the given type: nothing prevented, nothing stopped.\<close>

definition newEvent :: "string \<Rightarrow> node \<Rightarrow> event" where
  "newEvent ty tgt =
     \<lparr>etype = ty, key = [], button = None, ctrlKey = False, shiftKey = False,
      altKey = False, metaKey = False, target = tgt,
      defaultPrevented = False, propagationStopped = False\<rparr>"

text \<open>
  A handler reads the event and the component state and returns both, updated. A handler
  supplied by the consumer of the component (a prop such as \<open>onKeyDown\<close>, possibly
  \<open>undefined\<close>) acts on the model only through the two flags of the event: it says whether it
  calls \<open>preventDefault()\<close> and whether it calls \<open>stopPropagation()\<close>.
\<close>

type_synonym 's handler = "event \<Rightarrow> 's \<Rightarrow> event \<times> 's"

datatype reaction = Reaction (prevents: bool) (stops: bool)

type_synonym user_handler = "(event \<Rightarrow> reaction) option"

definition call_user :: "user_handler \<Rightarrow> event \<Rightarrow> event" where
  "call_user h ev =
     (case h of
        None \<Rightarrow> ev
      | Some f \<Rightarrow>
          ev\<lparr>defaultPrevented := (defaultPrevented ev \<or> prevents (f ev)),
             propagationStopped := (propagationStopped ev \<or> stops (f ev))\<rparr>)"

definition user :: "user_handler \<Rightarrow> 's handler" where
  "user h ev s = (call_user h ev, s)"

text \<open>
  Modelled from the spec: \<open>composeEventHandlers\<close> of \<open>@radix-ui/primitive\<close> is imported by
  \<open>Menu.tsx\<close> and is not among the source files. The handlers' own documentation in
  \<open>Menu.tsx\<close> (``Can be prevented'') and the \<open>checkForDefaultPrevented: false\<close> option the
  source passes fix its behaviour: the original handler runs first, and the component's own
  handler runs afterwards unless the check is on and the event has been default-prevented.
\<close>

definition composeEventHandlers :: "'s handler \<Rightarrow> 's handler \<Rightarrow> bool \<Rightarrow> 's handler" where
  "composeEventHandlers originalEventHandler ourEventHandler checkForDefaultPrevented ev s =
     (case originalEventHandler ev s of
        (ev1, s1) \<Rightarrow>
          if checkForDefaultPrevented = False \<or> defaultPrevented ev1 = False
          then ourEventHandler ev1 s1
          else (ev1, s1))"

section \<open>State-to-attribute mapping\<close>



section \<open>One menu level\<close>

text \<open>
  The state the source keeps for one \<open>Menu\<close> with its trigger and content:
  \<^item> \<open>openProp\<close>, \<open>uncontrolledOpen\<close>, \<open>onOpenChangeCalls\<close>: the \<open>open\<close> prop, the internally
    owned value of \<open>useControllableState\<close> (initially \<open>defaultOpen\<close>) and the calls the
    \<open>onOpenChange\<close> prop has received;
  \<^item> \<open>focusFirstItem\<close>: the state of \<open>MenuNested\<close>;
  \<^item> \<open>mouseInteracting\<close>: the state of \<open>MenuNestedTrigger\<close>;
  \<^item> \<open>isPermittedPointerDownOutsideEvent\<close>, \<open>currentItemId\<close>: the state of \<open>MenuContentImpl\<close>;
  \<^item> \<open>triggerRef\<close>, \<open>contentRef\<close>: the two refs of the menu context (\<open>None\<close> is \<open>null\<close>);
  \<^item> \<open>activeElement\<close>: \<open>document.activeElement\<close>;
  \<^item> \<open>disabled\<close>, \<open>trapFocus\<close>, \<open>disableOutsidePointerEvents\<close>: props of the trigger and
    of the content.
\<close>

record menu =
  openProp :: "bool option"
  uncontrolledOpen :: "bool option"
  onOpenChangeCalls :: "bool list"
  focusFirstItem :: bool
  mouseInteracting :: bool
  isPermittedPointerDownOutsideEvent :: bool
  currentItemId :: "node option"
  triggerRef :: "node option"
  contentRef :: "node option"
  activeElement :: "node option"
  disabled :: bool
  trapFocus :: bool
  disableOutsidePointerEvents :: bool

text \<open>
  Modelled from the spec: \<open>useControllableState\<close> of
  \<open>@radix-ui/react-use-controllable-state\<close> is not among the source files. The spec (4.5):
  the boolean ``may be externally controlled (owner supplies the value and receives change
  notifications) or internally owned with an initial default''. The source reads the hook
  as \<open>[open = false, setOpen]\<close>, so an absent value reads as closed.
\<close>

definition menu_open :: "menu \<Rightarrow> bool" where
  "menu_open m =
     (case openProp m of
        Some p \<Rightarrow> p
      | None \<Rightarrow> (case uncontrolledOpen m of Some u \<Rightarrow> u | None \<Rightarrow> False))"

definition handleOpenChange :: "bool \<Rightarrow> menu \<Rightarrow> menu" where
  "handleOpenChange v m = m\<lparr>onOpenChangeCalls := onOpenChangeCalls m @ [v]\<rparr>"

definition setOpen :: "bool \<Rightarrow> menu \<Rightarrow> menu" where
  "setOpen v m =
     (case openProp m of
        Some p \<Rightarrow> (if v = p then m else handleOpenChange v m)
      | None \<Rightarrow>
          (if uncontrolledOpen m = Some v then m
           else handleOpenChange v (m\<lparr>uncontrolledOpen := Some v\<rparr>)))"


definition focus :: "node option \<Rightarrow> menu \<Rightarrow> menu" where
  \<comment> \<open>\<open>ref.current?.focus()\<close>: nothing happens on a \<open>null\<close> ref.\<close>
  "focus r m = (case r of None \<Rightarrow> m | Some n \<Rightarrow> m\<lparr>activeElement := Some n\<rparr>)"

text \<open>
  \<open>trigger?.focus()\<close> called from the content of a submenu. Nothing happens on a \<open>null\<close> ref
  or when the trigger has focus already; otherwise focus moves to the trigger and the
  focus event reaches the trigger's own \<open>onFocus\<close>, passed here as \<open>onFocus\<close>, within the call.
\<close>

definition focus_trigger :: "menu handler \<Rightarrow> menu \<Rightarrow> menu" where
  "focus_trigger onFocus m =
     (case triggerRef m of
        None \<Rightarrow> m
      | Some trigger \<Rightarrow>
          if activeElement m = Some trigger then m
          else snd (onFocus (newEvent ''focus'' trigger) (m\<lparr>activeElement := Some trigger\<rparr>)))"

section \<open>Menu: the document-level listener for item selection\<close>

definition ITEM_SELECT :: string where
  "ITEM_SELECT = ''menu.itemSelect''"

text \<open>
  \<open>Menu\<close>, lines 72--80 of \<open>Menu.tsx\<close> (and the same lines of the flat variant): the
  listener every mounted \<open>Menu\<close> adds to \<open>document\<close>. Its \<open>handleOpenChange\<close> is the
  \<open>onOpenChange\<close> \<^emph>\<open>prop\<close> of the \<open>Menu\<close>, passed here as \<open>onOpenChange\<close>. In \<open>Menu.tsx\<close> that prop
  is the consumer's callback (\<^const>\<open>handleOpenChange\<close> records the call); in the flat variant
  \<open>MenuSubMenu\<close> renders its \<open>Menu\<close> with \<open>onOpenChange={setOpen}\<close>.
\<close>

definition Menu_handleMenuClose :: "(bool \<Rightarrow> menu \<Rightarrow> menu) \<Rightarrow> event \<Rightarrow> menu \<Rightarrow> menu" where
  "Menu_handleMenuClose onOpenChange ev m =
     (if defaultPrevented ev then m else onOpenChange False m)"

text \<open>
  \<open>MenuItem.handleSelect\<close>, lines 575--584: an enabled, mounted item creates the bubbling,
  cancelable event and dispatches it on itself. The listener on the item (lines 586--593)
  calls the item's \<open>onSelect\<close>; unless that stops the propagation the event bubbles to
  \<open>document\<close>, where the listener of every mounted \<open>Menu\<close> runs. \<open>menus\<close> are all the \<open>Menu\<close>
  instances mounted in the document, in any order.
\<close>

definition MenuItem_handleSelect ::
  "(bool \<Rightarrow> menu \<Rightarrow> menu) \<Rightarrow> bool \<Rightarrow> node option \<Rightarrow> (event \<Rightarrow> event) \<Rightarrow> menu list \<Rightarrow> menu list" where
  "MenuItem_handleSelect onOpenChange itemDisabled ref onSelect menus =
     (case ref of
        None \<Rightarrow> menus
      | Some menuItem \<Rightarrow>
          if itemDisabled then menus
          else
            (let itemSelectEvent = onSelect (newEvent ITEM_SELECT menuItem)
             in if propagationStopped itemSelectEvent then menus
                else map (Menu_handleMenuClose onOpenChange itemSelectEvent) menus))"

text \<open>
  \<open>MenuItem\<close>'s \<open>onKeyDown\<close> (lines 606--612) and \<open>onMouseUp\<close> (line 614): Enter and Space
  on an enabled item, and mouse-up, call \<open>handleSelect\<close>, each after the consumer's handler of
  the same name and only if that left the event unprevented.
\<close>

definition MenuItem_onKeyDown ::
  "user_handler \<Rightarrow> (bool \<Rightarrow> menu \<Rightarrow> menu) \<Rightarrow> bool \<Rightarrow> node option \<Rightarrow> (event \<Rightarrow> event)
     \<Rightarrow> menu list handler" where
  "MenuItem_onKeyDown h onOpenChange itemDisabled ref onSelect =
     composeEventHandlers (user h)
       (\<lambda>ev menus.
          if \<not> itemDisabled \<and> (key ev = ''Enter'' \<or> key ev = '' '')
          then ((if key ev = '' '' then preventDefault ev else ev),
                MenuItem_handleSelect onOpenChange itemDisabled ref onSelect menus)
          else (ev, menus))
       True"

definition MenuItem_onMouseUp ::
  "user_handler \<Rightarrow> (bool \<Rightarrow> menu \<Rightarrow> menu) \<Rightarrow> bool \<Rightarrow> node option \<Rightarrow> (event \<Rightarrow> event)
     \<Rightarrow> menu list handler" where
  "MenuItem_onMouseUp h onOpenChange itemDisabled ref onSelect =
     composeEventHandlers (user h)
       (\<lambda>ev menus. (ev, MenuItem_handleSelect onOpenChange itemDisabled ref onSelect menus))
       True"

text \<open>The \<open>onSelect\<close> of a plain item is the consumer's, if any (\<open>onSelect?.(event)\<close>).\<close>

definition MenuItem_onSelect :: "user_handler \<Rightarrow> event \<Rightarrow> event" where
  "MenuItem_onSelect h ev = call_user h ev"

section \<open>MenuNested and MenuNestedTrigger (Menu.tsx)\<close>

text \<open>
  \<open>MenuNested.onMenuOpen\<close>, lines 135--146. The context's \<open>onOpenChange\<close> is \<^const>\<open>setOpen\<close>
  (line 87).
\<close>

definition MenuNested_onMenuOpen :: "event \<Rightarrow> menu \<Rightarrow> menu" where
  "MenuNested_onMenuOpen ev m =
     (let m1 = setOpen True m;
          m2 = m1\<lparr>focusFirstItem := (etype ev = ''keydown'')\<rparr>
      in focus (contentRef m2) m2)"

text \<open>
  \<open>MenuNestedTrigger\<close>, lines 712--764. The trigger element is \<open>triggerRef\<close> (line 690). The
  focus event that \<open>event.currentTarget.focus()\<close> asks for in \<open>onMouseMove\<close> is the event
  \<open>onFocus\<close> handles: the spec (4.4) keeps the two apart, since focus may be granted later
  than the move or not at all.
\<close>

definition MenuNestedTrigger_onSelect :: "event \<Rightarrow> event" where
  "MenuNestedTrigger_onSelect ev = stopPropagation (preventDefault ev)"

definition MenuNestedTrigger_onMouseMove :: "user_handler \<Rightarrow> menu handler" where
  "MenuNestedTrigger_onMouseMove h =
     composeEventHandlers (user h)
       (\<lambda>ev m.
          if \<not> disabled m \<and> \<not> mouseInteracting m \<and> \<not> menu_open m
          then (preventDefault ev, focus (triggerRef m) (m\<lparr>mouseInteracting := True\<rparr>))
          else (preventDefault ev, m))
       True"

definition MenuNestedTrigger_onMouseLeave :: "user_handler \<Rightarrow> menu handler" where
  "MenuNestedTrigger_onMouseLeave h =
     composeEventHandlers (user h)
       (\<lambda>ev m. (preventDefault ev, m\<lparr>mouseInteracting := False\<rparr>))
       True"

definition MenuNestedTrigger_onFocus :: "user_handler \<Rightarrow> menu handler" where
  "MenuNestedTrigger_onFocus h =
     composeEventHandlers (user h)
       (\<lambda>ev m. if mouseInteracting m then (ev, MenuNested_onMenuOpen ev m) else (ev, m))
       True"

definition MenuNestedTrigger_onBlur :: "user_handler \<Rightarrow> menu handler" where
  "MenuNestedTrigger_onBlur h =
     composeEventHandlers (user h)
       (\<lambda>ev m. (ev, m\<lparr>mouseInteracting := False\<rparr>))
       True"

definition MenuNestedTrigger_onKeyDown :: "user_handler \<Rightarrow> menu handler" where
  "MenuNestedTrigger_onKeyDown h =
     composeEventHandlers (user h)
       (\<lambda>ev m.
          (let m1 = m\<lparr>mouseInteracting := False\<rparr>
           in if key ev \<in> set [''Enter'', '' '', ''ArrowRight'']
              then (ev, MenuNested_onMenuOpen ev m1)
              else (ev, m1)))
       True"

section \<open>MenuSubMenu and MenuSubMenuTrigger (the flat variant)\<close>

text \<open>\<open>MenuSubMenu\<close>, lines 687--694 of the flat variant.\<close>

definition MenuSubMenu_onMouseOpen :: "menu \<Rightarrow> menu" where
  "MenuSubMenu_onMouseOpen m = (setOpen True m)\<lparr>focusFirstItem := False\<rparr>"

definition MenuSubMenu_onKeyboardOpen :: "menu \<Rightarrow> menu" where
  "MenuSubMenu_onKeyboardOpen m = (setOpen True m)\<lparr>focusFirstItem := True\<rparr>"

text \<open>\<open>MenuSubMenuTrigger\<close>, lines 783--829 of the flat variant. It has no \<open>onBlur\<close>.\<close>

definition MenuSubMenuTrigger_onSelect :: "user_handler \<Rightarrow> event \<Rightarrow> event" where
  "MenuSubMenuTrigger_onSelect h ev =
     fst (composeEventHandlers (user h)
            (\<lambda>ev u. (stopPropagation (preventDefault ev), u)) True ev ())"

definition MenuSubMenuTrigger_onMouseMove :: "user_handler \<Rightarrow> menu handler" where
  "MenuSubMenuTrigger_onMouseMove h =
     composeEventHandlers (user h)
       (\<lambda>ev m.
          if \<not> disabled m \<and> \<not> mouseInteracting m \<and> \<not> menu_open m
          then (preventDefault ev, focus (triggerRef m) (m\<lparr>mouseInteracting := True\<rparr>))
          else (preventDefault ev, m))
       True"

definition MenuSubMenuTrigger_onMouseLeave :: "user_handler \<Rightarrow> menu handler" where
  "MenuSubMenuTrigger_onMouseLeave h =
     composeEventHandlers (user h)
       (\<lambda>ev m. (preventDefault ev, m\<lparr>mouseInteracting := False\<rparr>))
       True"

definition MenuSubMenuTrigger_onFocus :: "user_handler \<Rightarrow> menu handler" where
  "MenuSubMenuTrigger_onFocus h =
     composeEventHandlers (user h)
       (\<lambda>ev m. if mouseInteracting m then (ev, MenuSubMenu_onMouseOpen m) else (ev, m))
       True"

definition MenuSubMenuTrigger_onKeyDown :: "user_handler \<Rightarrow> menu handler" where
  "MenuSubMenuTrigger_onKeyDown h =
     composeEventHandlers (user h)
       (\<lambda>ev m.
          (let m1 = m\<lparr>mouseInteracting := False\<rparr>
           in if key ev \<in> set [''Enter'', '' '', ''ArrowRight'']
              then (ev, MenuSubMenu_onKeyboardOpen m1)
              else (ev, m1)))
       True"

section \<open>MenuContentImpl and the layers around it\<close>

text \<open>
  \<open>MenuContentImpl\<close> keeps two pieces of state, both created when the content mounts
  (\<open>useState(null)\<close> on line 325, \<open>useState(false)\<close> on lines 326--329).
\<close>

definition MenuContentImpl_mount :: "node \<Rightarrow> menu \<Rightarrow> menu" where
  "MenuContentImpl_mount content m =
     m\<lparr>currentItemId := None, isPermittedPointerDownOutsideEvent := False,
       contentRef := Some content\<rparr>"

definition MenuContentImpl_onItemLeave :: "menu \<Rightarrow> menu" where
  "MenuContentImpl_onItemLeave m = (focus (contentRef m) m)\<lparr>currentItemId := None\<rparr>"

text \<open>The \<open>trapped\<close> prop handed to \<open>FocusScope\<close>, line 358.\<close>

definition MenuContentImpl_trapped :: "menu \<Rightarrow> bool" where
  "MenuContentImpl_trapped m =
     (if isPermittedPointerDownOutsideEvent m then False else trapFocus m \<and> menu_open m)"


text \<open>\<open>onPointerDownOutside\<close>, lines 373--387; \<open>onPointerDownOutside\<close> is the prop.\<close>

definition isLeftClick :: "event \<Rightarrow> bool" where
  "isLeftClick ev = (button ev = Some 0 \<and> ctrlKey ev = False)"

definition MenuContentImpl_onPointerDownOutside :: "menu handler \<Rightarrow> menu handler" where
  "MenuContentImpl_onPointerDownOutside onPointerDownOutside =
     composeEventHandlers onPointerDownOutside
       (\<lambda>ev m.
          (let isPermitted = (\<not> disableOutsidePointerEvents m \<and> isLeftClick ev);
               m1 = m\<lparr>isPermittedPointerDownOutsideEvent := isPermitted\<rparr>
           in if defaultPrevented ev
              then (ev, m1\<lparr>isPermittedPointerDownOutsideEvent := False\<rparr>)
              else (ev, m1)))
       False"

text \<open>\<open>onFocusOutside\<close>, lines 388--396.\<close>

definition MenuContentImpl_onFocusOutside :: "menu handler \<Rightarrow> menu handler" where
  "MenuContentImpl_onFocusOutside onFocusOutside =
     composeEventHandlers onFocusOutside
       (\<lambda>ev m. if trapFocus m then (preventDefault ev, m) else (ev, m))
       False"

text \<open>\<open>onDismiss\<close>, line 398: \<open>context.onOpenChange(false)\<close>, which in \<open>Menu.tsx\<close> is \<open>setOpen\<close>.\<close>

definition MenuContentImpl_onDismiss :: "menu \<Rightarrow> menu" where
  "MenuContentImpl_onDismiss m = setOpen False m"

text \<open>
  Modelled from the spec: \<open>DismissableLayer\<close> of \<open>@radix-ui/react-dismissable-layer\<close> is not
  among the source files. The spec (4.6): for a pointer-down or focus event while the menu
  is open, an event whose target is inside the active content is ignored; otherwise the
  handlers run and the menu closes unless the event was suppressed. The props'
  documentation in \<open>Menu.tsx\<close> (lines 247--264) says each handler ``can be prevented'' and
  that \<open>onInteractOutside\<close> is called for both kinds of outside event. Without a mounted
  content there is no layer.
\<close>

definition DismissableLayer_outside ::
  "menu handler \<Rightarrow> menu handler \<Rightarrow> (menu \<Rightarrow> menu) \<Rightarrow> event \<Rightarrow> menu \<Rightarrow> menu" where
  "DismissableLayer_outside onOutside onInteractOutside onDismiss ev m =
     (case contentRef m of
        None \<Rightarrow> m
      | Some content \<Rightarrow>
          if contains content (target ev) then m
          else
            (case onOutside ev m of
               (ev1, m1) \<Rightarrow>
                 (case onInteractOutside ev1 m1 of
                    (ev2, m2) \<Rightarrow> if defaultPrevented ev2 then m2 else onDismiss m2)))"



text \<open>
  Modelled from the spec: \<open>RovingFocusGroup\<close> of \<open>@radix-ui/react-roving-focus\<close> is not among
  the source files. The spec (4.3, 4.7) and the comment on line 202 of \<open>Menu.tsx\<close>: when the
  content first receives focus the entry-focus callback runs and, unless it prevented the
  event, the first enabled item is focused and becomes the current stop. \<open>items\<close> are the
  registered items in order, each with its \<open>disabled\<close> flag.
\<close>

definition RovingFocusGroup_entryFocus ::
  "menu handler \<Rightarrow> (node \<times> bool) list \<Rightarrow> menu \<Rightarrow> event \<times> menu" where
  "RovingFocusGroup_entryFocus onEntryFocus items m =
     (case onEntryFocus (newEvent ''rovingFocusGroup.onEntryFocus'' []) m of
        (ev1, m1) \<Rightarrow>
          if defaultPrevented ev1 then (ev1, m1)
          else
            (case filter (\<lambda>item. \<not> snd item) items of
               [] \<Rightarrow> (ev1, m1)
             | item # rest \<Rightarrow>
                 (ev1, m1\<lparr>currentItemId := Some (fst item), activeElement := Some (fst item)\<rparr>)))"

text \<open>\<open>MenuContent\<close> renders a root-level content with this \<open>onEntryFocus\<close> (line 203).\<close>

definition MenuContent_onEntryFocus :: "menu handler" where
  "MenuContent_onEntryFocus ev m = (preventDefault ev, m)"

section \<open>MenuNestedContent (Menu.tsx)\<close>

text \<open>
  \<open>MenuNestedContent\<close>, lines 489--532. \<open>trigger\<close> is \<open>context.triggerRef.current\<close>; every
  \<open>h\<close> is the consumer's prop of the handler's name, and \<open>hfocus\<close> is the consumer's
  \<open>onFocus\<close> on the trigger, which the focus event of \<open>trigger?.focus()\<close> passes through
  (lines 749--753).
\<close>

definition MenuNestedContent_onKeyDown :: "user_handler \<Rightarrow> user_handler \<Rightarrow> menu handler" where
  "MenuNestedContent_onKeyDown h hfocus =
     composeEventHandlers (user h)
       (\<lambda>ev m.
          if key ev = ''ArrowLeft''
          then (stopPropagation ev, focus_trigger (MenuNestedTrigger_onFocus hfocus) m)
          else (ev, m))
       True"

definition MenuNestedContent_onEscapeKeyDown :: "user_handler \<Rightarrow> user_handler \<Rightarrow> menu handler" where
  "MenuNestedContent_onEscapeKeyDown h hfocus =
     composeEventHandlers (user h)
       (\<lambda>ev m. (ev, focus_trigger (MenuNestedTrigger_onFocus hfocus) m)) True"

definition MenuNestedContent_onEntryFocus :: "menu handler" where
  "MenuNestedContent_onEntryFocus ev m =
     (if \<not> focusFirstItem m then (preventDefault ev, m) else (ev, m))"


definition MenuNestedContent_onPointerDownOutside :: "user_handler \<Rightarrow> menu handler" where
  "MenuNestedContent_onPointerDownOutside h =
     composeEventHandlers (user h)
       (\<lambda>ev m.
          (case triggerRef m of
             None \<Rightarrow> (ev, m)
           | Some trigger \<Rightarrow>
               if contains trigger (target ev) then (preventDefault ev, m) else (ev, m)))
       True"

text \<open>
  The content of a submenu as rendered: \<open>MenuContentImpl\<close> with the props of
  \<open>MenuNestedContent\<close>, \<open>disableOutsidePointerEvents={false}\<close> among them (line 501).
  \<open>hp\<close>, \<open>hf\<close> and \<open>hi\<close> are the consumer's \<open>onPointerDownOutside\<close>, \<open>onFocusOutside\<close> and
  \<open>onInteractOutside\<close>.
\<close>

definition MenuNestedContent_pointerDownOutside ::
  "user_handler \<Rightarrow> user_handler \<Rightarrow> event \<Rightarrow> menu \<Rightarrow> menu" where
  "MenuNestedContent_pointerDownOutside hp hi ev m =
     DismissableLayer_outside
       (MenuContentImpl_onPointerDownOutside (MenuNestedContent_onPointerDownOutside hp))
       (user hi) MenuContentImpl_onDismiss ev
       (m\<lparr>disableOutsidePointerEvents := False\<rparr>)"

definition MenuContentImpl_focusOutside ::
  "user_handler \<Rightarrow> user_handler \<Rightarrow> event \<Rightarrow> menu \<Rightarrow> menu" where
  "MenuContentImpl_focusOutside hf hi ev m =
     DismissableLayer_outside (MenuContentImpl_onFocusOutside (user hf)) (user hi)
       MenuContentImpl_onDismiss ev m"

text \<open>The content of a root-level menu as rendered by \<open>MenuContent\<close> (lines 199--205).\<close>

definition MenuContent_pointerDownOutside ::
  "user_handler \<Rightarrow> user_handler \<Rightarrow> event \<Rightarrow> menu \<Rightarrow> menu" where
  "MenuContent_pointerDownOutside hp hi ev m =
     DismissableLayer_outside (MenuContentImpl_onPointerDownOutside (user hp)) (user hi)
       MenuContentImpl_onDismiss ev m"

text \<open>
  A key press inside the submenu's content: the \<open>onKeyDown\<close> of \<open>MenuNestedContent\<close> runs;
  when it moved \<open>document.activeElement\<close>, the element that now has focus receives a focus
  event, which the layer of this content sees as a focus-outside event unless the element
  is inside the content. The two handlers \<open>MenuContentImpl\<close> composes after it (lines
  446--458: the focus scope's, and the one that focuses the first or last item) act on
  other keys only and are left out.
\<close>

definition MenuNestedContent_keyDown ::
  "user_handler \<Rightarrow> user_handler \<Rightarrow> user_handler \<Rightarrow> user_handler \<Rightarrow> event \<Rightarrow> menu
     \<Rightarrow> event \<times> menu" where
  "MenuNestedContent_keyDown h hfocus hf hi ev m =
     (case MenuNestedContent_onKeyDown h hfocus ev m of
        (ev1, m1) \<Rightarrow>
          if activeElement m1 = activeElement m then (ev1, m1)
          else
            (case activeElement m1 of
               None \<Rightarrow> (ev1, m1)
             | Some focused \<Rightarrow>
                 (ev1, MenuContentImpl_focusOutside hf hi (newEvent ''focusin'' focused) m1)))"

section \<open>MenuSubMenuContent (the flat variant)\<close>

text \<open>
  \<open>MenuSubMenuContent.onKeyDown\<close>, lines 740--747 of the flat variant. The context's
  \<open>onOpenChange\<close> is the \<open>onOpenChange\<close> prop of the \<open>Menu\<close> that \<open>MenuSubMenu\<close> renders, which
  is \<open>setOpen\<close> (line 696). The focus event of \<open>trigger?.focus()\<close> reaches the \<open>onFocus\<close> of
  \<open>MenuSubMenuTrigger\<close> (lines 819--821), with the consumer's \<open>onFocus\<close> as \<open>hfocus\<close>.
\<close>

definition MenuSubMenuContent_onKeyDown :: "user_handler \<Rightarrow> user_handler \<Rightarrow> menu handler" where
  "MenuSubMenuContent_onKeyDown h hfocus =
     composeEventHandlers (user h)
       (\<lambda>ev m.
          if key ev = ''ArrowLeft''
          then (stopPropagation ev,
                focus_trigger (MenuSubMenuTrigger_onFocus hfocus) (setOpen False m))
          else (ev, m))
       True"

section \<open>Transitions of one menu level\<close>

text \<open>
  Everything that changes the state of one menu level: the owner supplying a new \<open>open\<close>
  prop, an item-select event arriving at the document listener, the five events of a
  submenu trigger, a key press inside a submenu's content, outside pointer-down and focus
  events on a root-level and on a submenu content, an item being left, and the content
  being mounted. Each transition carries the event and the consumer's handlers involved.
\<close>

datatype transition =
    OwnerSetsOpen "bool option"
  | ItemSelectAtDocument event
  | TriggerMouseMove user_handler event
  | TriggerMouseLeave user_handler event
  | TriggerFocus user_handler event
  | TriggerBlur user_handler event
  | TriggerKeyDown user_handler event
  | NestedContentKeyDown user_handler user_handler user_handler user_handler event
  | PointerDownOutside user_handler user_handler event
  | NestedPointerDownOutside user_handler user_handler event
  | FocusOutside user_handler user_handler event
  | ItemLeave
  | ContentMount node

fun step :: "transition \<Rightarrow> menu \<Rightarrow> menu" where
  "step (OwnerSetsOpen p) m = m\<lparr>openProp := p\<rparr>"
| "step (ItemSelectAtDocument ev) m = Menu_handleMenuClose handleOpenChange ev m"
| "step (TriggerMouseMove h ev) m = snd (MenuNestedTrigger_onMouseMove h ev m)"
| "step (TriggerMouseLeave h ev) m = snd (MenuNestedTrigger_onMouseLeave h ev m)"
| "step (TriggerFocus h ev) m = snd (MenuNestedTrigger_onFocus h ev m)"
| "step (TriggerBlur h ev) m = snd (MenuNestedTrigger_onBlur h ev m)"
| "step (TriggerKeyDown h ev) m = snd (MenuNestedTrigger_onKeyDown h ev m)"
| "step (NestedContentKeyDown h hfocus hf hi ev) m =
     snd (MenuNestedContent_keyDown h hfocus hf hi ev m)"
| "step (PointerDownOutside hp hi ev) m = MenuContent_pointerDownOutside hp hi ev m"
| "step (NestedPointerDownOutside hp hi ev) m = MenuNestedContent_pointerDownOutside hp hi ev m"
| "step (FocusOutside hf hi ev) m = MenuContentImpl_focusOutside hf hi ev m"
| "step ItemLeave m = MenuContentImpl_onItemLeave m"
| "step (ContentMount content) m = MenuContentImpl_mount content m"

section \<open>Rendering\<close>

text \<open>
  What a \<open>Menu\<close> renders depends on more than the state of its level. A \<open>Menu\<close> below another
  one (\<open>levelCount > 0\<close>, line 93) wraps its children in \<open>MenuNested\<close>, whose state
  \<open>renderChildren\<close> is false when it mounts and is set by its layout effect (lines 120 and
  128--130); until then neither trigger nor content is rendered (line 148). The flat
  variant does the same in \<open>MenuSubMenu\<close> (lines 668 and 678--680 there). A root-level
  \<open>Menu\<close> renders its children at once.
\<close>

record menu_instance =
  level :: menu
  isNested :: bool
  renderChildren :: bool



text \<open>
  The life of one mounted \<open>Menu\<close>: the layout effect of \<open>MenuNested\<close>, and the transitions of
  its level.
\<close>

datatype lifecycle = LayoutEffect | Level transition

fun instance_step :: "lifecycle \<Rightarrow> menu_instance \<Rightarrow> menu_instance" where
  "instance_step LayoutEffect i = i\<lparr>renderChildren := True\<rparr>"
| "instance_step (Level t) i = i\<lparr>level := step t (level i)\<rparr>"

fun instance_run :: "lifecycle list \<Rightarrow> menu_instance \<Rightarrow> menu_instance" where
  "instance_run [] i = i"
| "instance_run (t # ts) i = instance_run ts (instance_step t i)"










section \<open>Typeahead matcher\<close>

text \<open>
  Modelled from the spec: \<open>useMenuTypeahead\<close> and \<open>useMenuTypeaheadItem\<close> are imported by
  \<open>Menu.tsx\<close> from \<open>./useMenuTypeahead\<close>, which is not among the source files. The
  definitions below follow section 4.2 of the spec and its data model (section 3) word
  by word:
  \<^item> a \<open>RegisteredItem\<close> has an identity, a \<open>disabled\<close> flag and a \<open>textValue\<close>;
  \<^item> the \<open>TypeaheadBuffer\<close> is \<open>{characters, lastInputAt}\<close>, cleared when the rolling window
    (about one second) has elapsed since \<open>lastInputAt\<close>;
  \<^item> \<open>onCharacter(char, items)\<close> ignores non-printable input; it appends the character to
    the buffer (reset first if the window elapsed), scans the items in order starting
    after the currently focused item and wrapping around to the start, skips disabled
    items, and prefix-matches \<open>textValue\<close> against the buffer ignoring case; it returns the
    first match or, when the buffer matches nothing, retries with the newly typed
    character alone before returning null.
  The spec's ``ignore repeats of a single character used to mean cycle'' is read as the
  retry it goes on to describe (``supports rapid repeated first letter to cycle through
  same-initial items''). The currently focused item is the \<open>FocusStop\<close> of the level, an
  argument here. Times are in milliseconds.
\<close>

record RegisteredItem =
  identity :: nat
  item_disabled :: bool
  textValue :: string

record TypeaheadBuffer =
  characters :: string
  lastInputAt :: int

definition TYPEAHEAD_WINDOW :: int where
  "TYPEAHEAD_WINDOW = 1000"

definition printable :: "char \<Rightarrow> bool" where
  "printable c = (32 \<le> (of_char c :: nat) \<and> (of_char c :: nat) < 127)"

definition toLowerCase_char :: "char \<Rightarrow> char" where
  "toLowerCase_char c =
     (case map_of (zip ''ABCDEFGHIJKLMNOPQRSTUVWXYZ'' ''abcdefghijklmnopqrstuvwxyz'') c of
        Some l \<Rightarrow> l
      | None \<Rightarrow> c)"

definition toLowerCase :: "string \<Rightarrow> string" where
  "toLowerCase s = map toLowerCase_char s"

fun position_of :: "nat \<Rightarrow> RegisteredItem list \<Rightarrow> nat option" where
  "position_of i [] = None"
| "position_of i (x # xs) =
     (if identity x = i then Some 0
      else (case position_of i xs of None \<Rightarrow> None | Some n \<Rightarrow> Some (Suc n)))"

definition scan_order :: "RegisteredItem list \<Rightarrow> nat option \<Rightarrow> RegisteredItem list" where
  "scan_order items current =
     (case current of
        None \<Rightarrow> items
      | Some c \<Rightarrow>
          (case position_of c items of
             None \<Rightarrow> items
           | Some n \<Rightarrow> drop (Suc n) items @ take (Suc n) items))"

definition first_match :: "string \<Rightarrow> RegisteredItem list \<Rightarrow> RegisteredItem option" where
  "first_match buffer order =
     find (\<lambda>item. \<not> item_disabled item
                 \<and> prefix (toLowerCase buffer) (toLowerCase (textValue item))) order"

definition onCharacter ::
  "TypeaheadBuffer \<Rightarrow> int \<Rightarrow> nat option \<Rightarrow> char \<Rightarrow> RegisteredItem list
     \<Rightarrow> TypeaheadBuffer \<times> RegisteredItem option" where
  "onCharacter buf now current c items =
     (if \<not> printable c then (buf, None)
      else
        (let kept = (if TYPEAHEAD_WINDOW \<le> now - lastInputAt buf then [] else characters buf);
             chars = kept @ [c];
             order = scan_order items current;
             found = (case first_match chars order of
                        Some item \<Rightarrow> Some item
                      | None \<Rightarrow> first_match [c] order)
         in (\<lparr>characters = chars, lastInputAt = now\<rparr>, found)))"

text \<open>The three items of the spec's example, all enabled, and the empty buffer.\<close>

definition fruit :: "RegisteredItem list" where
  "fruit =
     [\<lparr>identity = 0, item_disabled = False, textValue = ''Apple''\<rparr>,
      \<lparr>identity = 1, item_disabled = False, textValue = ''Apricot''\<rparr>,
      \<lparr>identity = 2, item_disabled = False, textValue = ''Banana''\<rparr>]"

definition empty_buffer :: TypeaheadBuffer where
  "empty_buffer = \<lparr>characters = [], lastInputAt = 0\<rparr>"

text \<open>
  The text value the matcher returns after the given keystrokes, each with the time it is
  typed at and the focus stop at that moment; \<open>None\<close> when the last keystroke matched nothing.
\<close>

fun typed :: "(int \<times> nat option \<times> char) list \<Rightarrow> RegisteredItem list \<Rightarrow> TypeaheadBuffer
     \<Rightarrow> string option \<Rightarrow> string option" where
  "typed [] items buf result = result"
| "typed ((now, current, c) # rest) items buf result =
     (case onCharacter buf now current c items of
        (buf1, found) \<Rightarrow> typed rest items buf1 (map_option textValue found))"

section \<open>Concrete states and events\<close>

text \<open>
  A freshly mounted \<open>Menu\<close> that is given no props: uncontrolled, closed, nothing rendered
  below it yet.
\<close>

definition menu0 :: menu where
  "menu0 =
     \<lparr>openProp = None, uncontrolledOpen = None, onOpenChangeCalls = [],
      focusFirstItem = False, mouseInteracting = False,
      isPermittedPointerDownOutsideEvent = False, currentItemId = None,
      triggerRef = None, contentRef = None, activeElement = None,
      disabled = False, trapFocus = False, disableOutsidePointerEvents = False\<rparr>"

text \<open>
  An open root-level menu rendered with \<open>defaultOpen\<close> and no \<open>open\<close> prop; its content is
  the element \<open>[0, 1]\<close> and an item of it has focus.
\<close>

definition root_menu :: menu where
  "root_menu =
     menu0\<lparr>uncontrolledOpen := Some True, triggerRef := Some [0, 0],
           contentRef := Some [0, 1], activeElement := Some [0, 1, 0]\<rparr>"

text \<open>
  An open submenu: its trigger \<open>[0, 1, 3, 0]\<close> is an item of the parent's content \<open>[0, 1]\<close>,
  its own content is \<open>[0, 1, 3, 1]\<close> and an item of that content has focus.
\<close>

definition sub_menu :: menu where
  "sub_menu =
     menu0\<lparr>uncontrolledOpen := Some True, triggerRef := Some [0, 1, 3, 0],
           contentRef := Some [0, 1, 3, 1], activeElement := Some [0, 1, 3, 1, 0]\<rparr>"

definition keydown :: "string \<Rightarrow> node \<Rightarrow> event" where
  "keydown k tgt = (newEvent ''keydown'' tgt)\<lparr>key := k\<rparr>"

definition pointerdown :: "int \<Rightarrow> node \<Rightarrow> event" where
  "pointerdown b tgt = (newEvent ''pointerdown'' tgt)\<lparr>button := Some b\<rparr>"

text \<open>A consumer's handler that only calls \<open>preventDefault()\<close>.\<close>

definition preventing :: user_handler where
  "preventing = Some (\<lambda>ev. Reaction True False)"

text \<open>A consumer's handler that only calls \<open>stopPropagation()\<close>.\<close>

definition stopping :: user_handler where
  "stopping = Some (\<lambda>ev. Reaction False True)"

section \<open>The spec's wording of the pass-through classification\<close>

text \<open>
  Section 4.6 (c) of the spec, word by word: the pointer-down is a permitted pass-through
  ``iff it is a primary-button click with no held modifier and outside-pointer-events are
  not globally disabled for this content''.
\<close>

definition spec_permitted_pass_through :: "bool \<Rightarrow> event \<Rightarrow> bool" where
  "spec_permitted_pass_through outsideDisabled ev =
     (button ev = Some 0
      \<and> \<not> (ctrlKey ev \<or> shiftKey ev \<or> altKey ev \<or> metaKey ev)
      \<and> \<not> outsideDisabled)"

section \<open>Properties\<close>

lemmas handler_defs = composeEventHandlers_def user_def call_user_def preventDefault_def
  stopPropagation_def newEvent_def

lemmas typeahead_defs = onCharacter_def fruit_def empty_buffer_def printable_def
  TYPEAHEAD_WINDOW_def scan_order_def first_match_def toLowerCase_def toLowerCase_char_def

text \<open>A consumer's handler changes nothing of an event but its two flags.\<close>

lemma call_user_fields [simp]:
  "etype (call_user h ev) = etype ev"
  "key (call_user h ev) = key ev"
  "button (call_user h ev) = button ev"
  "ctrlKey (call_user h ev) = ctrlKey ev"
  "target (call_user h ev) = target ev"
  by (cases h; simp add: call_user_def)+

lemma onMenuOpen_call_user [simp]:
  "MenuNested_onMenuOpen (call_user h ev) m = MenuNested_onMenuOpen ev m"
  by (simp add: MenuNested_onMenuOpen_def)

lemma onMenuOpen_fields [simp]:
  "focusFirstItem (MenuNested_onMenuOpen ev m) = (etype ev = ''keydown'')"
  "mouseInteracting (MenuNested_onMenuOpen ev m) = mouseInteracting m"
  by (auto simp add: MenuNested_onMenuOpen_def focus_def setOpen_def handleOpenChange_def Let_def
      split: option.splits)

subsection \<open>Item selection and the open stack\<close>

text \<open>
  Claim C1: selecting an enabled item that is not a submenu trigger, with no handler
  preventing the default, closes every level of the open stack; selecting a submenu
  trigger leaves every level open.

  \<open>Menu.tsx\<close> does not do the first half for a level that owns its open state. The
  document listener calls \<open>handleOpenChange\<close>, which is the \<open>onOpenChange\<close> prop and not the
  \<open>setOpen\<close> of \<open>useControllableState\<close>; a \<open>Menu\<close> rendered with \<open>defaultOpen\<close> and no \<open>open\<close> prop
  therefore stays open after a mouse-up on one of its items, although the prop callback
  was invoked with \<open>false\<close>. Dismissal of the same menu goes through \<open>setOpen\<close> and closes it,
  and so does item selection on a submenu level of the flat variant, where \<open>MenuSubMenu\<close>
  passes \<open>setOpen\<close> as the \<open>onOpenChange\<close> of its \<open>Menu\<close>.
\<close>

theorem C1_uncontrolled_level_stays_open:
  "map menu_open
     (snd (MenuItem_onMouseUp None handleOpenChange False (Some [0, 1, 0]) (MenuItem_onSelect None)
             (newEvent ''mouseup'' [0, 1, 0]) [root_menu])) = [True]
   \<and> map onOpenChangeCalls
     (snd (MenuItem_onMouseUp None handleOpenChange False (Some [0, 1, 0]) (MenuItem_onSelect None)
             (newEvent ''mouseup'' [0, 1, 0]) [root_menu])) = [[False]]
   \<and> menu_open (MenuContentImpl_onDismiss root_menu) = False
   \<and> map menu_open
     (snd (MenuItem_onMouseUp None setOpen False (Some [0, 1, 3, 1, 0]) (MenuItem_onSelect None)
             (newEvent ''mouseup'' [0, 1, 3, 1, 0]) [sub_menu])) = [False]"
  by (simp add: MenuItem_onMouseUp_def MenuItem_handleSelect_def Menu_handleMenuClose_def
      handleOpenChange_def MenuItem_onSelect_def handler_defs root_menu_def sub_menu_def
      menu0_def menu_open_def MenuContentImpl_onDismiss_def setOpen_def ITEM_SELECT_def Let_def)

text \<open>
  The second half of the claim holds: the \<open>onSelect\<close> of a submenu trigger prevents the default
  and stops the propagation, so the event never reaches the document and no mounted menu
  changes, whatever callback its listener would have called.
\<close>

lemma submenu_trigger_select_keeps_stack:
  "MenuItem_handleSelect onOpenChange itemDisabled ref MenuNestedTrigger_onSelect menus = menus"
  by (simp add: MenuItem_handleSelect_def MenuNestedTrigger_onSelect_def stopPropagation_def
      preventDefault_def Let_def split: option.splits)

text \<open>
  Claim C10, as the code has it: every mounted \<open>Menu\<close> has its own listener on the
  document, so an item selection that is not default-prevented and whose propagation is
  not stopped before it reaches the document invokes \<open>onOpenChange(false)\<close> on every mounted
  menu, whether or not the menu is an ancestor of the selected item. The list \<open>menus\<close> is
  arbitrary: the listener never asks where the item sits.
\<close>

theorem C10_every_mounted_menu_notified:
  assumes "\<not> defaultPrevented (onSelect (newEvent ITEM_SELECT item))"
    and "\<not> propagationStopped (onSelect (newEvent ITEM_SELECT item))"
  shows "map onOpenChangeCalls
           (MenuItem_handleSelect handleOpenChange False (Some item) onSelect menus)
         = map (\<lambda>m. onOpenChangeCalls m @ [False]) menus"
  using assms
  by (simp add: MenuItem_handleSelect_def Menu_handleMenuClose_def handleOpenChange_def Let_def)

text \<open>
  An item of the submenu is selected; the root menu, the submenu and an unrelated third
  menu are mounted. All three are notified.
\<close>

theorem C10_every_mounted_menu_notified_witness:
  "\<not> defaultPrevented (MenuItem_onSelect None (newEvent ITEM_SELECT [0, 1, 3, 1, 0]))
   \<and> \<not> propagationStopped (MenuItem_onSelect None (newEvent ITEM_SELECT [0, 1, 3, 1, 0]))
   \<and> map onOpenChangeCalls
       (MenuItem_handleSelect handleOpenChange False (Some [0, 1, 3, 1, 0]) (MenuItem_onSelect None)
          [root_menu, sub_menu, menu0\<lparr>openProp := Some True\<rparr>])
     = [[False], [False], [False]]"
  using C10_every_mounted_menu_notified [of "MenuItem_onSelect None" "[0, 1, 3, 1, 0]"
      "[root_menu, sub_menu, menu0\<lparr>openProp := Some True\<rparr>]"]
  by (simp add: MenuItem_onSelect_def handler_defs root_menu_def sub_menu_def menu0_def)

text \<open>
  The claim as worded fails: a consumer's \<open>onSelect\<close> that stops the propagation without
  preventing the default leaves the selection non-default-prevented, yet the event never
  reaches the document and no mounted menu is notified.
\<close>

theorem C10_stopped_selection_notifies_nobody:
  "\<not> defaultPrevented (MenuItem_onSelect stopping (newEvent ITEM_SELECT [0, 1, 3, 1, 0]))
   \<and> map onOpenChangeCalls
       (MenuItem_handleSelect handleOpenChange False (Some [0, 1, 3, 1, 0])
          (MenuItem_onSelect stopping) [root_menu, sub_menu, menu0\<lparr>openProp := Some True\<rparr>])
     = [[], [], []]"
  by (simp add: MenuItem_handleSelect_def MenuItem_onSelect_def stopping_def ITEM_SELECT_def
      handler_defs root_menu_def sub_menu_def menu0_def Let_def)

subsection \<open>ArrowLeft inside a submenu\<close>

text \<open>
  Claim C2: ArrowLeft inside a depth-2 submenu closes that submenu only, moves focus to
  its trigger and leaves the depth-1 menu open.

  The handler of \<open>Menu.tsx\<close> (under the comment ``Close a single level'') stops the
  propagation and focuses the trigger, and never calls \<open>onOpenChange(false)\<close>: the submenu
  closes only if the focus event on the trigger dismisses it. When the submenu's content
  traps focus, \<open>onFocusOutside\<close> prevents that dismissal and the submenu stays open. The
  handler of the flat variant calls \<open>context.onOpenChange(false)\<close> itself and closes the
  same submenu.
\<close>

theorem C2_trapped_submenu_stays_open:
  "menu_open (snd (MenuNestedContent_keyDown None None None None
                     (keydown ''ArrowLeft'' [0, 1, 3, 1, 0]) (sub_menu\<lparr>trapFocus := True\<rparr>))) = True
   \<and> onOpenChangeCalls (snd (MenuNestedContent_keyDown None None None None
                     (keydown ''ArrowLeft'' [0, 1, 3, 1, 0]) (sub_menu\<lparr>trapFocus := True\<rparr>))) = []
   \<and> menu_open (snd (MenuSubMenuContent_onKeyDown None None
                     (keydown ''ArrowLeft'' [0, 1, 3, 1, 0]) (sub_menu\<lparr>trapFocus := True\<rparr>))) = False"
  by (simp add: MenuNestedContent_keyDown_def MenuNestedContent_onKeyDown_def
      MenuContentImpl_focusOutside_def DismissableLayer_outside_def
      MenuContentImpl_onFocusOutside_def MenuContentImpl_onDismiss_def
      MenuSubMenuContent_onKeyDown_def MenuNestedTrigger_onFocus_def
      MenuSubMenuTrigger_onFocus_def focus_trigger_def keydown_def sub_menu_def menu0_def
      contains_def menu_open_def setOpen_def handleOpenChange_def handler_defs)

text \<open>
  Without focus trapping, without a consumer's handler and with a trigger that is not
  pointer-engaged, the same key press does close the submenu of \<open>Menu.tsx\<close>, through the
  focus that lands on the trigger.
\<close>

lemma MenuNestedContent_ArrowLeft_untrapped:
  assumes "key ev = ''ArrowLeft''" and "\<not> defaultPrevented ev" and "\<not> trapFocus m"
    and "\<not> mouseInteracting m"
    and "triggerRef m = Some trigger" and "contentRef m = Some content"
    and "\<not> contains content trigger" and "activeElement m \<noteq> Some trigger"
  shows "snd (MenuNestedContent_keyDown None None None None ev m)
         = setOpen False (m\<lparr>activeElement := Some trigger\<rparr>)"
  using assms
  by (simp add: MenuNestedContent_keyDown_def MenuNestedContent_onKeyDown_def
      MenuContentImpl_focusOutside_def DismissableLayer_outside_def
      MenuContentImpl_onFocusOutside_def MenuContentImpl_onDismiss_def
      MenuNestedTrigger_onFocus_def focus_trigger_def handler_defs)

lemma MenuNestedContent_ArrowLeft_untrapped_witness:
  "menu_open sub_menu
   \<and> \<not> menu_open (snd (MenuNestedContent_keyDown None None None None
                        (keydown ''ArrowLeft'' [0, 1, 3, 1, 0]) sub_menu))
   \<and> activeElement (snd (MenuNestedContent_keyDown None None None None
                        (keydown ''ArrowLeft'' [0, 1, 3, 1, 0]) sub_menu)) = triggerRef sub_menu"
  using MenuNestedContent_ArrowLeft_untrapped
          [of "keydown ''ArrowLeft'' [0, 1, 3, 1, 0]" sub_menu "[0, 1, 3, 0]" "[0, 1, 3, 1]"]
  by (simp add: keydown_def sub_menu_def menu0_def contains_def menu_open_def setOpen_def
      handleOpenChange_def newEvent_def)

text \<open>
  In the flat variant the handler closes the level itself, focus trapping or not, as long
  as the consumer's \<open>onKeyDown\<close> leaves the event unprevented and the trigger is not
  pointer-engaged; an uncontrolled level then reads closed and focus is on the trigger.
\<close>

lemma MenuSubMenuContent_ArrowLeft_closes:
  assumes "key ev = ''ArrowLeft''" and "\<not> defaultPrevented (call_user h ev)"
    and "\<not> mouseInteracting m"
  shows "snd (MenuSubMenuContent_onKeyDown h hfocus ev m) = focus (triggerRef m) (setOpen False m)"
  using assms
  by (cases "triggerRef m")
     (auto simp add: MenuSubMenuContent_onKeyDown_def MenuSubMenuTrigger_onFocus_def
      focus_trigger_def focus_def setOpen_def handleOpenChange_def composeEventHandlers_def
      user_def split: option.splits)

lemma MenuSubMenuContent_ArrowLeft_closes_witness:
  "key (keydown ''ArrowLeft'' [0, 1, 3, 1, 0]) = ''ArrowLeft''
   \<and> \<not> defaultPrevented (call_user None (keydown ''ArrowLeft'' [0, 1, 3, 1, 0]))
   \<and> \<not> mouseInteracting sub_menu
   \<and> \<not> menu_open (snd (MenuSubMenuContent_onKeyDown None None
                        (keydown ''ArrowLeft'' [0, 1, 3, 1, 0]) sub_menu))
   \<and> activeElement (snd (MenuSubMenuContent_onKeyDown None None
                        (keydown ''ArrowLeft'' [0, 1, 3, 1, 0]) sub_menu)) = Some [0, 1, 3, 0]"
  using MenuSubMenuContent_ArrowLeft_closes
          [of "keydown ''ArrowLeft'' [0, 1, 3, 1, 0]" None sub_menu None]
  by (simp add: keydown_def sub_menu_def menu0_def menu_open_def setOpen_def focus_def
      handleOpenChange_def newEvent_def call_user_def)

text \<open>
  With the trigger still pointer-engaged (the flat variant has no \<open>onBlur\<close> to clear
  \<open>mouseInteracting\<close>) the focus event of \<open>trigger?.focus()\<close> is an open signal and the
  submenu is open again after the key press.
\<close>

lemma MenuSubMenuContent_ArrowLeft_reopens_engaged:
  "menu_open (snd (MenuSubMenuContent_onKeyDown None None
                     (keydown ''ArrowLeft'' [0, 1, 3, 1, 0])
                     (sub_menu\<lparr>mouseInteracting := True\<rparr>)))"
  by (simp add: MenuSubMenuContent_onKeyDown_def MenuSubMenuTrigger_onFocus_def
      MenuSubMenu_onMouseOpen_def focus_trigger_def keydown_def sub_menu_def menu0_def
      menu_open_def setOpen_def handleOpenChange_def handler_defs)

subsection \<open>Outside pointer-down\<close>

text \<open>
  Claim C3, as the code has it: while a root-level menu is open, a pointer-down outside
  its content is recorded as a permitted pass-through exactly when outside pointer events
  are not disabled for the content, the button is the primary one, the Ctrl key is not
  held (Shift, Alt and Meta are not looked at) and the event has not been
  default-prevented when the content's own handler runs; the record is kept in
  \<open>isPermittedPointerDownOutsideEvent\<close>, and the menu is then closed through \<open>setOpen(false)\<close>
  unless the event was default-prevented.
\<close>

theorem C3_pass_through_classification:
  assumes "contentRef m = Some content" and "\<not> contains content (target ev)"
  shows "MenuContent_pointerDownOutside hp hi ev m =
           (let m1 = m\<lparr>isPermittedPointerDownOutsideEvent :=
                        (\<not> disableOutsidePointerEvents m \<and> button ev = Some 0 \<and> \<not> ctrlKey ev
                         \<and> \<not> defaultPrevented (call_user hp ev))\<rparr>
            in if defaultPrevented (call_user hi (call_user hp ev)) then m1 else setOpen False m1)"
  using assms
  by (cases hp; cases hi)
     (auto simp add: MenuContent_pointerDownOutside_def DismissableLayer_outside_def
      MenuContentImpl_onPointerDownOutside_def MenuContentImpl_onDismiss_def isLeftClick_def
      handler_defs Let_def)

text \<open>A plain primary-button press outside the open root menu: recorded, and the menu closes.\<close>

theorem C3_pass_through_classification_witness:
  "contentRef root_menu = Some [0, 1]
   \<and> \<not> contains [0, 1] (target (pointerdown 0 [5]))
   \<and> isPermittedPointerDownOutsideEvent
       (MenuContent_pointerDownOutside None None (pointerdown 0 [5]) root_menu)
   \<and> \<not> menu_open (MenuContent_pointerDownOutside None None (pointerdown 0 [5]) root_menu)"
  using C3_pass_through_classification [of root_menu "[0, 1]" "pointerdown 0 [5]" None None]
  by (simp add: root_menu_def menu0_def pointerdown_def contains_def menu_open_def setOpen_def
      handleOpenChange_def handler_defs Let_def)

text \<open>
  The claim as worded fails twice. A primary-button press with Shift held is a press with
  a held modifier, yet the code records it as permitted. And a plain primary-button press
  that the consumer's \<open>onPointerDownOutside\<close> default-prevents satisfies the claim's
  condition, yet the code records it as not permitted and the menu stays open.
\<close>

theorem C3_claimed_classification_fails:
  "isPermittedPointerDownOutsideEvent
     (MenuContent_pointerDownOutside None None ((pointerdown 0 [5])\<lparr>shiftKey := True\<rparr>) root_menu)
   \<noteq> spec_permitted_pass_through (disableOutsidePointerEvents root_menu)
       ((pointerdown 0 [5])\<lparr>shiftKey := True\<rparr>)
   \<and> isPermittedPointerDownOutsideEvent
       (MenuContent_pointerDownOutside preventing None (pointerdown 0 [5]) root_menu)
     \<noteq> spec_permitted_pass_through (disableOutsidePointerEvents root_menu) (pointerdown 0 [5])
   \<and> menu_open (MenuContent_pointerDownOutside preventing None (pointerdown 0 [5]) root_menu)"
  by (simp add: MenuContent_pointerDownOutside_def DismissableLayer_outside_def
      MenuContentImpl_onPointerDownOutside_def MenuContentImpl_onDismiss_def isLeftClick_def
      spec_permitted_pass_through_def pointerdown_def preventing_def root_menu_def menu0_def
      contains_def menu_open_def setOpen_def handleOpenChange_def handler_defs Let_def)

text \<open>
  Claim C8: a pointer-down whose target lies inside the submenu's own trigger never closes
  the submenu. Whatever the consumer's handlers do, the open state of the level is what
  it was and its \<open>onOpenChange\<close> has received no call.
\<close>

theorem C8_pointer_down_on_own_trigger:
  assumes "triggerRef m = Some trigger" and "contains trigger (target ev)"
  shows "menu_open (MenuNestedContent_pointerDownOutside hp hi ev m) = menu_open m
         \<and> onOpenChangeCalls (MenuNestedContent_pointerDownOutside hp hi ev m) = onOpenChangeCalls m"
  using assms
  by (cases hp; cases hi)
     (auto simp add: MenuNestedContent_pointerDownOutside_def DismissableLayer_outside_def
      MenuContentImpl_onPointerDownOutside_def MenuNestedContent_onPointerDownOutside_def
      MenuContentImpl_onDismiss_def menu_open_def handler_defs Let_def split: option.splits)

text \<open>
  A primary-button press on a child of the trigger of the open submenu: the submenu stays
  open, while the same press elsewhere outside closes it.
\<close>

theorem C8_pointer_down_on_own_trigger_witness:
  "triggerRef sub_menu = Some [0, 1, 3, 0]
   \<and> contains [0, 1, 3, 0] (target (pointerdown 0 [0, 1, 3, 0, 2]))
   \<and> menu_open sub_menu
   \<and> menu_open (MenuNestedContent_pointerDownOutside None None
                   (pointerdown 0 [0, 1, 3, 0, 2]) sub_menu)
   \<and> \<not> menu_open (MenuNestedContent_pointerDownOutside None None (pointerdown 0 [5]) sub_menu)"
proof -
  have "\<not> menu_open (MenuNestedContent_pointerDownOutside None None (pointerdown 0 [5]) sub_menu)"
    by (simp add: MenuNestedContent_pointerDownOutside_def DismissableLayer_outside_def
        MenuContentImpl_onPointerDownOutside_def MenuNestedContent_onPointerDownOutside_def
        MenuContentImpl_onDismiss_def isLeftClick_def pointerdown_def sub_menu_def menu0_def
        contains_def menu_open_def setOpen_def handleOpenChange_def handler_defs Let_def)
  then show ?thesis
    using C8_pointer_down_on_own_trigger
            [of sub_menu "[0, 1, 3, 0]" "pointerdown 0 [0, 1, 3, 0, 2]" None None]
    by (simp add: sub_menu_def menu0_def pointerdown_def newEvent_def contains_def menu_open_def)
qed

subsection \<open>The open-intent state machine of a submenu trigger\<close>

text \<open>
  Claim C4, as the code has it. With the consumer's handler of the same name leaving the
  event unprevented:
  \<^item> a pointer move sets \<open>mouseInteracting\<close> (and asks for focus on the trigger) only on an
    enabled trigger of a closed menu that is not engaged yet, and otherwise changes
    nothing; it never opens the menu;
  \<^item> pointer-leave clears \<open>mouseInteracting\<close> and changes nothing else;
  \<^item> a focus event on an engaged trigger is the open signal (\<open>onMenuOpen\<close>, which opens a
    level that owns its state), and on a trigger that is not engaged it changes nothing;
  \<^item> the opening leaves \<open>mouseInteracting\<close> as it is; it is cleared by pointer-leave, by a
    key press on the trigger and, in \<open>Menu.tsx\<close> only, by the trigger's blur.
  All of this holds of \<open>MenuNestedTrigger\<close> in \<open>Menu.tsx\<close> and of \<open>MenuSubMenuTrigger\<close> in the
  flat variant, which has no \<open>onBlur\<close>.
\<close>

theorem C4_open_intent_machine:
  assumes "\<not> defaultPrevented (call_user h ev)"
  shows "snd (MenuNestedTrigger_onMouseMove h ev m)
           = (if \<not> disabled m \<and> \<not> mouseInteracting m \<and> \<not> menu_open m
              then focus (triggerRef m) (m\<lparr>mouseInteracting := True\<rparr>) else m)
         \<and> menu_open (snd (MenuNestedTrigger_onMouseMove h ev m)) = menu_open m
         \<and> onOpenChangeCalls (snd (MenuNestedTrigger_onMouseMove h ev m)) = onOpenChangeCalls m
         \<and> snd (MenuNestedTrigger_onMouseLeave h ev m) = m\<lparr>mouseInteracting := False\<rparr>
         \<and> snd (MenuNestedTrigger_onFocus h ev m)
             = (if mouseInteracting m then MenuNested_onMenuOpen ev m else m)
         \<and> menu_open (MenuNested_onMenuOpen ev (m\<lparr>openProp := None\<rparr>))
         \<and> mouseInteracting (MenuNested_onMenuOpen ev m) = mouseInteracting m
         \<and> snd (MenuNestedTrigger_onBlur h ev m) = m\<lparr>mouseInteracting := False\<rparr>
         \<and> \<not> mouseInteracting (snd (MenuNestedTrigger_onKeyDown h ev m))
         \<and> snd (MenuSubMenuTrigger_onMouseMove h ev m)
             = (if \<not> disabled m \<and> \<not> mouseInteracting m \<and> \<not> menu_open m
                then focus (triggerRef m) (m\<lparr>mouseInteracting := True\<rparr>) else m)
         \<and> menu_open (snd (MenuSubMenuTrigger_onMouseMove h ev m)) = menu_open m
         \<and> onOpenChangeCalls (snd (MenuSubMenuTrigger_onMouseMove h ev m)) = onOpenChangeCalls m
         \<and> snd (MenuSubMenuTrigger_onMouseLeave h ev m) = m\<lparr>mouseInteracting := False\<rparr>
         \<and> snd (MenuSubMenuTrigger_onFocus h ev m)
             = (if mouseInteracting m then MenuSubMenu_onMouseOpen m else m)
         \<and> menu_open (MenuSubMenu_onMouseOpen (m\<lparr>openProp := None\<rparr>))
         \<and> mouseInteracting (MenuSubMenu_onMouseOpen m) = mouseInteracting m
         \<and> \<not> mouseInteracting (snd (MenuSubMenuTrigger_onKeyDown h ev m))"
  using assms
  by (auto simp add: MenuNestedTrigger_onMouseMove_def MenuNestedTrigger_onMouseLeave_def
      MenuNestedTrigger_onFocus_def MenuNestedTrigger_onBlur_def MenuNestedTrigger_onKeyDown_def
      MenuSubMenuTrigger_onMouseMove_def MenuSubMenuTrigger_onMouseLeave_def
      MenuSubMenuTrigger_onFocus_def MenuSubMenuTrigger_onKeyDown_def
      MenuSubMenu_onKeyboardOpen_def MenuNested_onMenuOpen_def MenuSubMenu_onMouseOpen_def
      focus_def menu_open_def setOpen_def handleOpenChange_def composeEventHandlers_def
      user_def preventDefault_def Let_def split: option.splits)

text \<open>
  The pointer moves over the idle trigger of a closed submenu: the trigger is engaged and
  the menu still closed. The focus event that follows on the engaged trigger opens it.
\<close>

theorem C4_open_intent_machine_witness:
  "\<not> defaultPrevented (call_user None (newEvent ''mousemove'' [0, 1, 3, 0]))
   \<and> \<not> defaultPrevented (call_user None (newEvent ''focus'' [0, 1, 3, 0]))
   \<and> mouseInteracting (snd (MenuNestedTrigger_onMouseMove None (newEvent ''mousemove'' [0, 1, 3, 0])
                              (menu0\<lparr>triggerRef := Some [0, 1, 3, 0]\<rparr>)))
   \<and> \<not> menu_open (snd (MenuNestedTrigger_onMouseMove None (newEvent ''mousemove'' [0, 1, 3, 0])
                              (menu0\<lparr>triggerRef := Some [0, 1, 3, 0]\<rparr>)))
   \<and> menu_open (snd (MenuNestedTrigger_onFocus None (newEvent ''focus'' [0, 1, 3, 0])
                        (menu0\<lparr>triggerRef := Some [0, 1, 3, 0], mouseInteracting := True\<rparr>)))"
  using C4_open_intent_machine
          [of None "newEvent ''mousemove'' [0, 1, 3, 0]" "menu0\<lparr>triggerRef := Some [0, 1, 3, 0]\<rparr>"]
        C4_open_intent_machine
          [of None "newEvent ''focus'' [0, 1, 3, 0]"
              "menu0\<lparr>triggerRef := Some [0, 1, 3, 0], mouseInteracting := True\<rparr>"]
  by (simp add: menu0_def menu_open_def focus_def call_user_def newEvent_def
      MenuNested_onMenuOpen_def setOpen_def handleOpenChange_def)

text \<open>
  The claim's last part fails, in \<open>Menu.tsx\<close> and in the flat variant: after the focus
  event on an engaged trigger the menu is open and the trigger is still engaged.
\<close>

theorem C4_engagement_survives_opening:
  "menu_open (snd (MenuNestedTrigger_onFocus None (newEvent ''focus'' [0, 1, 3, 0])
                     (menu0\<lparr>triggerRef := Some [0, 1, 3, 0], mouseInteracting := True\<rparr>)))
   \<and> mouseInteracting (snd (MenuNestedTrigger_onFocus None (newEvent ''focus'' [0, 1, 3, 0])
                     (menu0\<lparr>triggerRef := Some [0, 1, 3, 0], mouseInteracting := True\<rparr>)))
   \<and> menu_open (snd (MenuSubMenuTrigger_onFocus None (newEvent ''focus'' [0, 1, 3, 0])
                     (menu0\<lparr>triggerRef := Some [0, 1, 3, 0], mouseInteracting := True\<rparr>)))
   \<and> mouseInteracting (snd (MenuSubMenuTrigger_onFocus None (newEvent ''focus'' [0, 1, 3, 0])
                     (menu0\<lparr>triggerRef := Some [0, 1, 3, 0], mouseInteracting := True\<rparr>)))"
  by (simp add: MenuNestedTrigger_onFocus_def MenuNested_onMenuOpen_def
      MenuSubMenuTrigger_onFocus_def MenuSubMenu_onMouseOpen_def focus_def menu_open_def
      setOpen_def handleOpenChange_def menu0_def handler_defs Let_def)

subsection \<open>Focus on close and on entry\<close>



text \<open>
  Claim C7: a key press of Enter, Space or ArrowRight on a submenu trigger opens the
  submenu and records \<open>focusFirstItem\<close>, whatever the pointer state (\<open>mouseInteracting\<close>) was;
  the entry focus of the content is then not prevented and the first enabled item becomes
  the focus stop. Opening by a focus event on a pointer-engaged trigger records that no
  item is to be focused; the entry focus is then prevented and the focus stop stays null.
  The consumer's handlers on the trigger are assumed to leave the event unprevented.
\<close>

theorem C7_keyboard_open_prefocuses:
  assumes "key ev \<in> {''Enter'', '' '', ''ArrowRight''}" and "etype ev = ''keydown''"
    and "\<not> defaultPrevented (call_user h ev)"
    and "mouseInteracting m2" and "etype ev2 = ''focus''"
    and "\<not> defaultPrevented (call_user h2 ev2)"
  shows "snd (MenuNestedTrigger_onKeyDown h ev m)
           = MenuNested_onMenuOpen ev (m\<lparr>mouseInteracting := False\<rparr>)
         \<and> snd (MenuNestedTrigger_onKeyDown h ev (m\<lparr>mouseInteracting := b\<rparr>))
           = snd (MenuNestedTrigger_onKeyDown h ev m)
         \<and> focusFirstItem (snd (MenuNestedTrigger_onKeyDown h ev m))
         \<and> \<not> defaultPrevented (fst (RovingFocusGroup_entryFocus MenuNestedContent_onEntryFocus items
              (MenuContentImpl_mount content (snd (MenuNestedTrigger_onKeyDown h ev m)))))
         \<and> currentItemId (snd (RovingFocusGroup_entryFocus MenuNestedContent_onEntryFocus items
              (MenuContentImpl_mount content (snd (MenuNestedTrigger_onKeyDown h ev m)))))
           = (case filter (\<lambda>item. \<not> snd item) items of [] \<Rightarrow> None | item # rest \<Rightarrow> Some (fst item))
         \<and> snd (MenuNestedTrigger_onFocus h2 ev2 m2) = MenuNested_onMenuOpen ev2 m2
         \<and> \<not> focusFirstItem (snd (MenuNestedTrigger_onFocus h2 ev2 m2))
         \<and> defaultPrevented (fst (RovingFocusGroup_entryFocus MenuNestedContent_onEntryFocus items
              (MenuContentImpl_mount content (snd (MenuNestedTrigger_onFocus h2 ev2 m2)))))
         \<and> currentItemId (snd (RovingFocusGroup_entryFocus MenuNestedContent_onEntryFocus items
              (MenuContentImpl_mount content (snd (MenuNestedTrigger_onFocus h2 ev2 m2))))) = None"
proof -
  have k: "snd (MenuNestedTrigger_onKeyDown h ev m)
             = MenuNested_onMenuOpen ev (m\<lparr>mouseInteracting := False\<rparr>)" for m
    using assms(1,3)
    by (auto simp add: MenuNestedTrigger_onKeyDown_def composeEventHandlers_def user_def Let_def)
  have f: "snd (MenuNestedTrigger_onFocus h2 ev2 m2) = MenuNested_onMenuOpen ev2 m2"
    using assms(4,6)
    by (simp add: MenuNestedTrigger_onFocus_def composeEventHandlers_def user_def)
  show ?thesis
    unfolding k f using assms(2,5)
    by (simp add: RovingFocusGroup_entryFocus_def MenuNestedContent_onEntryFocus_def
        MenuContentImpl_mount_def preventDefault_def newEvent_def split: list.splits)
qed

text \<open>
  ArrowRight on the trigger of a closed submenu whose first item is disabled: the submenu
  opens and its second item becomes the focus stop. A focus event on the same trigger
  while pointer-engaged: the submenu opens and no item is the focus stop.
\<close>

theorem C7_keyboard_open_prefocuses_witness:
  "key (keydown ''ArrowRight'' [0, 1, 3, 0]) \<in> {''Enter'', '' '', ''ArrowRight''}
   \<and> etype (keydown ''ArrowRight'' [0, 1, 3, 0]) = ''keydown''
   \<and> \<not> defaultPrevented (call_user None (keydown ''ArrowRight'' [0, 1, 3, 0]))
   \<and> mouseInteracting (menu0\<lparr>triggerRef := Some [0, 1, 3, 0], mouseInteracting := True\<rparr>)
   \<and> etype (newEvent ''focus'' [0, 1, 3, 0]) = ''focus''
   \<and> \<not> defaultPrevented (call_user None (newEvent ''focus'' [0, 1, 3, 0]))
   \<and> menu_open (snd (MenuNestedTrigger_onKeyDown None (keydown ''ArrowRight'' [0, 1, 3, 0])
                        (menu0\<lparr>triggerRef := Some [0, 1, 3, 0]\<rparr>)))
   \<and> currentItemId (snd (RovingFocusGroup_entryFocus MenuNestedContent_onEntryFocus
        [([0, 1, 3, 1, 0], True), ([0, 1, 3, 1, 1], False)]
        (MenuContentImpl_mount [0, 1, 3, 1]
           (snd (MenuNestedTrigger_onKeyDown None (keydown ''ArrowRight'' [0, 1, 3, 0])
                   (menu0\<lparr>triggerRef := Some [0, 1, 3, 0]\<rparr>))))))
     = Some [0, 1, 3, 1, 1]
   \<and> menu_open (snd (MenuNestedTrigger_onFocus None (newEvent ''focus'' [0, 1, 3, 0])
                        (menu0\<lparr>triggerRef := Some [0, 1, 3, 0], mouseInteracting := True\<rparr>)))
   \<and> currentItemId (snd (RovingFocusGroup_entryFocus MenuNestedContent_onEntryFocus
        [([0, 1, 3, 1, 0], True), ([0, 1, 3, 1, 1], False)]
        (MenuContentImpl_mount [0, 1, 3, 1]
           (snd (MenuNestedTrigger_onFocus None (newEvent ''focus'' [0, 1, 3, 0])
                   (menu0\<lparr>triggerRef := Some [0, 1, 3, 0], mouseInteracting := True\<rparr>))))))
     = None"
proof -
  have k: "key (keydown ''ArrowRight'' [0, 1, 3, 0]) \<in> {''Enter'', '' '', ''ArrowRight''}"
    and t: "etype (keydown ''ArrowRight'' [0, 1, 3, 0]) = ''keydown''"
    and p: "\<not> defaultPrevented (call_user None (keydown ''ArrowRight'' [0, 1, 3, 0]))"
    and e: "mouseInteracting (menu0\<lparr>triggerRef := Some [0, 1, 3, 0], mouseInteracting := True\<rparr>)"
    and t2: "etype (newEvent ''focus'' [0, 1, 3, 0]) = ''focus''"
    and p2: "\<not> defaultPrevented (call_user None (newEvent ''focus'' [0, 1, 3, 0]))"
    by (simp_all add: keydown_def newEvent_def call_user_def)
  from C7_keyboard_open_prefocuses
         [OF k t p e t2 p2, of "menu0\<lparr>triggerRef := Some [0, 1, 3, 0]\<rparr>" False
            "[([0, 1, 3, 1, 0], True), ([0, 1, 3, 1, 1], False)]" "[0, 1, 3, 1]"]
  show ?thesis
    by (simp add: MenuNestedTrigger_onKeyDown_def MenuNestedTrigger_onFocus_def
        MenuNested_onMenuOpen_def RovingFocusGroup_entryFocus_def
        MenuNestedContent_onEntryFocus_def MenuContentImpl_mount_def keydown_def menu0_def
        menu_open_def setOpen_def handleOpenChange_def focus_def handler_defs Let_def)
qed

subsection \<open>Rendered state attributes\<close>

text \<open>Once the children of a \<open>Menu\<close> are rendered they stay rendered.\<close>

lemma instance_run_isNested [simp]: "isNested (instance_run ts i) = isNested i"
proof (induction ts arbitrary: i)
  case Nil
  show ?case by simp
next
  case (Cons t ts)
  show ?case by (cases t) (simp_all add: Cons.IH)
qed






subsection \<open>Typeahead\<close>

text \<open>
  Claim C9 is about \<open>useMenuTypeahead\<close>, which is not among the source files; the matcher
  above follows section 4.2 of the spec. Over the enabled items Apple, Apricot and Banana,
  starting with no focus stop and an empty buffer, it returns Apple for \<open>a\<close> and Banana for
  \<open>b\<close> typed after the window has elapsed. What it returns for a second keystroke within
  the window depends on the focus stop at that keystroke: \<open>p\<close> gives Apple with no stop and
  Apricot with the stop on Apple, \<open>a\<close> gives Apricot with the stop on Apple and Apple with
  no stop.
\<close>

lemma typeahead_keystrokes:
  "typed [(100, None, CHR ''a'')] fruit empty_buffer None = Some ''Apple''
   \<and> typed [(100, None, CHR ''a''), (200, None, CHR ''p'')] fruit empty_buffer None = Some ''Apple''
   \<and> typed [(100, None, CHR ''a''), (200, Some 0, CHR ''p'')] fruit empty_buffer None = Some ''Apricot''
   \<and> typed [(100, None, CHR ''a''), (200, Some 0, CHR ''a'')] fruit empty_buffer None = Some ''Apricot''
   \<and> typed [(100, None, CHR ''a''), (200, None, CHR ''a'')] fruit empty_buffer None = Some ''Apple''
   \<and> typed [(100, None, CHR ''a''), (2000, None, CHR ''b'')] fruit empty_buffer None = Some ''Banana''
   \<and> typed [(100, None, CHR ''a''), (2000, Some 0, CHR ''b'')] fruit empty_buffer None = Some ''Banana''"
  by (simp add: typeahead_defs)

text \<open>
  The two sequences \<open>ap\<close> and \<open>aa\<close> share their first keystroke, and no focus stop at the
  second keystroke gives Apple for \<open>ap\<close> and Apricot for \<open>aa\<close> at once: the scan that starts
  after the stop yields Apple for \<open>ap\<close> only if the stop is not Apple and Apricot for \<open>aa\<close>
  only if it is.
\<close>

lemma typeahead_outcomes_exclude_each_other:
  "\<not> (\<exists>stop.
        typed [(100, None, CHR ''a''), (200, stop, CHR ''p'')] fruit empty_buffer None = Some ''Apple''
        \<and> typed [(100, None, CHR ''a''), (200, stop, CHR ''a'')] fruit empty_buffer None
            = Some ''Apricot'')"
proof
  assume "\<exists>stop.
        typed [(100, None, CHR ''a''), (200, stop, CHR ''p'')] fruit empty_buffer None = Some ''Apple''
        \<and> typed [(100, None, CHR ''a''), (200, stop, CHR ''a'')] fruit empty_buffer None
            = Some ''Apricot''"
  then obtain stop where
    p: "typed [(100, None, CHR ''a''), (200, stop, CHR ''p'')] fruit empty_buffer None = Some ''Apple''"
    and a: "typed [(100, None, CHR ''a''), (200, stop, CHR ''a'')] fruit empty_buffer None
            = Some ''Apricot''"
    by blast
  show False
  proof (cases stop)
    case None
    with a show False
      by (simp add: typeahead_defs)
  next
    case (Some n)
    consider "n = 0" | "n = 1" | "n = 2" | "3 \<le> n" by linarith
    then show False
    proof cases
      case 1
      with Some p show False
        by (simp add: typeahead_defs)
    next
      case 2
      with Some a show False
        by (simp add: typeahead_defs)
    next
      case 3
      with Some a show False
        by (simp add: typeahead_defs)
    next
      case 4
      with Some a show False
        by (simp add: typeahead_defs)
    qed
  qed
qed

end
